theory Spec2Isabelle
  imports Main "HOL-Library.Sublist"
begin

section \<open>Errors and the handler result type\<close>

text \<open>
  Go's \<open>error\<close> interface is opaque to the handlers: they only test it against \<open>nil\<close>
  and pass it on. The constructors name the failures the collaborators can report.
\<close>

datatype error = NotFound | Unavailable | Err string

text \<open>The struct \<open>appError\<close> of handlers.go: the error, a message and an HTTP status.\<close>

record appError =
  Error :: error
  Message :: string
  Code :: int

text \<open>A call \<open>writeJSON(w, status, v)\<close> on the response writer.\<close>

datatype reply = WriteJSON int string

definition StatusBadRequest :: int where
  "StatusBadRequest = 400"

definition StatusInternalServerError :: int where
  "StatusInternalServerError = 500"

text \<open>
  \<open>ServeHTTP\<close>: a handler that returns an \<open>appError\<close> is answered by
  \<open>http.Error(w, e.Message, e.Code)\<close>, which writes the message followed by a newline
  byte; otherwise the handler has written the response. The function gives the status and
  the body the client sees.
\<close>

fun ServeHTTP :: "appError + reply \<Rightarrow> int \<times> string" where
  "ServeHTTP (Inl e) = (Code e, Message e @ [CHR 0x0A])"
| "ServeHTTP (Inr (WriteJSON st v)) = (st, v)"

section \<open>The blob store\<close>

text \<open>
  Modelled from the spec: the storage context (\<open>NewStorageContext\<close>, \<open>ReadFile\<close>,
  \<open>WriteFile\<close>) is not part of the source file. Section 6 of the specification gives
  the backend a content per path, a version token that changes on every successful write,
  \<open>NotFound\<close> for a read of an absent object, and backend errors for either call. The
  two calls below have the signatures handlers.go uses: \<open>ReadFile\<close> returns the bytes
  or an error and no version token, \<open>WriteFile\<close> takes the path and the bytes and no
  version token. A write that succeeds installs the whole content at once; a write that
  fails installs nothing.
\<close>

record Storage =
  objects :: "string \<Rightarrow> string option"
  generation :: "string \<Rightarrow> nat"
  readable :: bool
  writable :: bool

text \<open>
  Modelled from the spec: \<open>ReadFile\<close> of the absent storage context, after
  \<open>Read(path) -> (bytes, versionToken | NotFound)\<close> of section 6; the Go signature
  returns the bytes and an error only.
\<close>

definition ReadFile :: "Storage \<Rightarrow> string \<Rightarrow> error + string" where
  "ReadFile sc path =
     (if \<not> readable sc then Inl Unavailable
      else case objects sc path of None \<Rightarrow> Inl NotFound | Some data \<Rightarrow> Inr data)"

text \<open>
  Modelled from the spec: \<open>WriteFile\<close> of the absent storage context. The call in
  handlers.go passes the path and the bytes; a successful write replaces the object and
  changes its version token, a rejected one leaves the store as it was.
\<close>

definition WriteFile :: "Storage \<Rightarrow> string \<Rightarrow> string \<Rightarrow> error option \<times> Storage" where
  "WriteFile sc path data =
     (if \<not> writable sc then (Some Unavailable, sc)
      else (None, sc\<lparr>objects := (objects sc)(path \<mapsto> data),
                      generation := (generation sc)(path := Suc (generation sc path))\<rparr>))"

section \<open>Revocation\<close>

definition revocations :: string where
  "revocations = ''revocations.txt''"

text \<open>The Go string \<open>"\n"\<close>: the single byte 0x0A.\<close>

definition newline :: string where
  "newline = [CHR 0x0A]"

text \<open>
  \<open>revokeLicense\<close>: read the whole file, append a newline and the identifier in
  memory, write the whole file back. Either backend error is returned as it is.
\<close>

definition revokeLicense :: "Storage \<Rightarrow> string \<Rightarrow> error option \<times> Storage" where
  "revokeLicense sc ident =
     (case ReadFile sc revocations of
        Inl err \<Rightarrow> (Some err, sc)
      | Inr data \<Rightarrow>
          (let line = ident;
               data' = data @ newline @ line
           in case WriteFile sc revocations data' of
                (Some err, sc') \<Rightarrow> (Some err, sc')
              | (None, sc') \<Rightarrow> (None, sc')))"

text \<open>
  \<open>RevokeLicense\<close>: the identifier (\<open>id\<close> in the source, which is a constant of
  HOL) is \<open>mux.Vars(r)["id"]\<close>; indexing a Go map at a missing key gives the zero
  value, the empty string.
\<close>

definition RevokeLicense :: "(string \<Rightarrow> string option) \<Rightarrow> Storage \<Rightarrow> (appError + reply) \<times> Storage" where
  "RevokeLicense vars sc =
     (let ident = (case vars ''id'' of None \<Rightarrow> [] | Some v \<Rightarrow> v)
      in case revokeLicense sc ident of
           (Some err, sc') \<Rightarrow>
             (Inl \<lparr>Error = err,
                   Message = ''An error occurred updating the revocations file'',
                   Code = StatusInternalServerError\<rparr>, sc')
         | (None, sc') \<Rightarrow> (Inr (WriteJSON 200 ''SUCCESS''), sc'))"

subsection \<open>One call as two backend steps\<close>

text \<open>
  Between its two backend calls \<open>revokeLicense\<close> holds no lock, so calls of other
  requests can run in between. A call is at its read (line 79) with its identifier,
  at its write (line 90) with the local \<open>data\<close> it is about to write, or has returned.
\<close>

datatype call = AtRead string | AtWrite string | Returned "error option"

fun step :: "Storage \<Rightarrow> call \<Rightarrow> Storage \<times> call" where
  "step sc (AtRead ident) =
     (case ReadFile sc revocations of
        Inl err \<Rightarrow> (sc, Returned (Some err))
      | Inr data \<Rightarrow> (sc, AtWrite (data @ newline @ ident)))"
| "step sc (AtWrite data) =
     (case WriteFile sc revocations data of
        (Some err, sc') \<Rightarrow> (sc', Returned (Some err))
      | (None, sc') \<Rightarrow> (sc', Returned None))"
| "step sc (Returned r) = (sc, Returned r)"

text \<open>
  A schedule names, step by step, which of the pending calls moves next; a number that
  names no call is skipped.
\<close>

fun run :: "nat list \<Rightarrow> Storage \<times> call list \<Rightarrow> Storage \<times> call list" where
  "run [] cfg = cfg"
| "run (i # sched) (sc, calls) =
     (if i < length calls
      then (case step sc (calls ! i) of (sc', c') \<Rightarrow> run sched (sc', calls[i := c']))
      else run sched (sc, calls))"

text \<open>Calls made one after the other, each returning before the next starts.\<close>

fun revokeAll :: "Storage \<Rightarrow> string list \<Rightarrow> error option list \<times> Storage" where
  "revokeAll sc [] = ([], sc)"
| "revokeAll sc (ident # idents) =
     (case revokeLicense sc ident of
        (r, sc') \<Rightarrow> (case revokeAll sc' idents of (rs, sc'') \<Rightarrow> (r # rs, sc'')))"

subsection \<open>The record as a set\<close>

text \<open>\<open>strings.Split(data, "\n")\<close>: the pieces between newline bytes.\<close>

fun splitLines :: "string \<Rightarrow> string list" where
  "splitLines [] = [[]]"
| "splitLines (c # cs) =
     (if c = CHR 0x0A then [] # splitLines cs
      else (case splitLines cs of [] \<Rightarrow> [[c]] | l # ls \<Rightarrow> (c # l) # ls))"

text \<open>
  Modelled from the spec: the read path (\<open>IsRevoked\<close>, the parser of the record) is not
  part of the source file. The revocation record is a set of identifiers (section 3),
  empty for an empty or absent object; in the format \<open>revokeLicense\<close> writes each
  identifier follows a newline, so the members are the non-empty lines of the object.
\<close>

definition entries :: "string \<Rightarrow> string set" where
  "entries data = set (filter (\<lambda>l. l \<noteq> []) (splitLines data))"

text \<open>
  Modelled from the spec: the membership set of the stored record; an absent object is the
  empty set (section 4.2, step 1).
\<close>

definition members :: "Storage \<Rightarrow> string set" where
  "members sc = (case objects sc revocations of None \<Rightarrow> {} | Some data \<Rightarrow> entries data)"

subsection \<open>Stores used in the examples\<close>

definition emptyRecord :: Storage where
  "emptyRecord = \<lparr>objects = [revocations \<mapsto> []], generation = (\<lambda>_. 0),
                   readable = True, writable = True\<rparr>"

definition noRecord :: Storage where
  "noRecord = \<lparr>objects = Map.empty, generation = (\<lambda>_. 0),
                readable = True, writable = True\<rparr>"

definition readOnly :: Storage where
  "readOnly = \<lparr>objects = [revocations \<mapsto> []], generation = (\<lambda>_. 0),
                readable = True, writable = False\<rparr>"

section \<open>Issuing\<close>

text \<open>
  \<open>NewLicense\<close> calls the JSON decoder on the request body, \<open>getPrivateKey\<close>,
  \<open>license.New\<close> and \<open>Encode\<close>. None of the four is in the source file, so the handler
  takes them as parameters: the decoder gives the \<open>Product\<close> field of the request or
  an error, the key provider a key or an error, the encoder the license string or an
  error.
\<close>

record ('k, 'l) Issuer =
  decodeBody :: "string \<Rightarrow> error + string"
  getPrivateKey :: "string \<Rightarrow> error + 'k"
  licenseNew :: "string \<Rightarrow> 'l"
  licenseEncode :: "'l \<Rightarrow> 'k \<Rightarrow> error + string"

text \<open>The calls the handler makes on its collaborators, in the order it makes them.\<close>

datatype effect = GetPrivateKey string | LicenseNew string | LicenseEncode

definition NewLicense :: "('k, 'l) Issuer \<Rightarrow> string \<Rightarrow> effect list \<times> (appError + reply)" where
  "NewLicense env body =
     (case decodeBody env body of
        Inl err \<Rightarrow>
          ([], Inl \<lparr>Error = err, Message = ''Could not decode json request'',
                    Code = StatusBadRequest\<rparr>)
      | Inr product \<Rightarrow>
          (case getPrivateKey env ''plugin'' of
             Inl err \<Rightarrow>
               ([GetPrivateKey ''plugin''],
                Inl \<lparr>Error = err, Message = ''Could not load private key for signing'',
                      Code = StatusInternalServerError\<rparr>)
           | Inr key \<Rightarrow>
               (let lic = licenseNew env product
                in case licenseEncode env lic key of
                     Inl err \<Rightarrow>
                       ([GetPrivateKey ''plugin'', LicenseNew product, LicenseEncode],
                        Inl \<lparr>Error = err, Message = ''Could not encode the license'',
                              Code = StatusInternalServerError\<rparr>)
                   | Inr licStr \<Rightarrow>
                       ([GetPrivateKey ''plugin'', LicenseNew product, LicenseEncode],
                        Inr (WriteJSON 200 licStr)))))"

text \<open>A key provider and an encoder for the examples.\<close>

definition testIssuer :: "bool \<Rightarrow> (nat, string) Issuer" where
  "testIssuer keyOk =
     \<lparr>decodeBody = (\<lambda>b. if b = ''{\"product\": \"\"}'' then Inr []
                          else if b = ''{\"product\": \"domain_changer\"}'' then Inr ''domain_changer''
                          else Inl (Err ''unexpected end of JSON input'')),
      getPrivateKey = (\<lambda>n. if keyOk \<and> n = ''plugin'' then Inr 7 else Inl (Err ''no such key'')),
      licenseNew = (\<lambda>p. p),
      licenseEncode = (\<lambda>l k. Inr (''license:'' @ l))\<rparr>"

section \<open>Properties of the store and of one revocation\<close>

lemma revokeLicense_present:
  "readable sc \<Longrightarrow> writable sc \<Longrightarrow> objects sc revocations = Some d \<Longrightarrow>
   revokeLicense sc ident =
     (None, sc\<lparr>objects := (objects sc)(revocations \<mapsto> d @ newline @ ident),
               generation := (generation sc)(revocations := Suc (generation sc revocations))\<rparr>)"
  by (simp add: revokeLicense_def ReadFile_def WriteFile_def)

lemma splitLines_nonempty: "splitLines xs \<noteq> []"
  by (induction xs) (auto split: list.splits)

lemma splitLines_append:
  "splitLines (xs @ newline @ ys) = splitLines xs @ splitLines ys"
  by (induction xs) (auto simp: newline_def splitLines_nonempty split: list.splits)

lemma splitLines_no_newline:
  "l \<in> set (splitLines xs) \<Longrightarrow> CHR 0x0A \<notin> set l"
  by (induction xs arbitrary: l) (auto split: if_splits list.splits)

lemma splitLines_single:
  "CHR 0x0A \<notin> set xs \<Longrightarrow> splitLines xs = [xs]"
  by (induction xs) auto

lemma length_splitLines:
  "length (splitLines xs) = Suc (count_list xs (CHR 0x0A))"
  by (induction xs) (auto split: list.splits)

lemma entries_append:
  "entries (xs @ newline @ ys) = entries xs \<union> entries ys"
  by (auto simp: entries_def splitLines_append)

lemma entries_single:
  "CHR 0x0A \<notin> set xs \<Longrightarrow> xs \<noteq> [] \<Longrightarrow> entries xs = {xs}"
  by (simp add: entries_def splitLines_single)

lemma entries_member:
  "x \<in> entries d \<Longrightarrow> entries x = {x}"
  by (auto simp: entries_def splitLines_single dest: splitLines_no_newline)

lemma revokeLicense_cases:
  "revokeLicense sc ident =
     (if \<not> readable sc then (Some Unavailable, sc)
      else case objects sc revocations of
             None \<Rightarrow> (Some NotFound, sc)
           | Some d \<Rightarrow>
               if \<not> writable sc then (Some Unavailable, sc)
               else (None, sc\<lparr>objects := (objects sc)(revocations \<mapsto> d @ newline @ ident),
                              generation := (generation sc)(revocations := Suc (generation sc revocations))\<rparr>))"
  by (simp add: revokeLicense_def ReadFile_def WriteFile_def split: option.splits)

lemma revokeLicense_failure_unchanged:
  "fst (revokeLicense sc ident) = Some e \<Longrightarrow> snd (revokeLicense sc ident) = sc"
  by (simp add: revokeLicense_cases split: if_splits option.splits)

lemma members_revokeLicense:
  "members (snd (revokeLicense sc ident)) =
     (if fst (revokeLicense sc ident) = None then members sc \<union> entries ident else members sc)"
  by (simp add: revokeLicense_cases members_def entries_append split: option.splits)

lemma step_step_revokeLicense:
  "(case step sc (AtRead ident) of (sc1, c1) \<Rightarrow> step sc1 c1) =
   (case revokeLicense sc ident of (r, sc') \<Rightarrow> (sc', Returned r))"
  by (simp add: revokeLicense_def ReadFile_def WriteFile_def split: option.splits)

lemma run_twice_revokeLicense:
  "run [0, 0] (sc, [AtRead ident]) =
   (case revokeLicense sc ident of (r, sc') \<Rightarrow> (sc', [Returned r]))"
  by (simp add: revokeLicense_def ReadFile_def WriteFile_def split: option.splits)

lemma snd_revokeAll_Cons:
  "snd (revokeAll sc (i # idents)) = snd (revokeAll (snd (revokeLicense sc i)) idents)"
  by (simp add: case_prod_beta)

lemma fst_revokeAll_Cons:
  "fst (revokeAll sc (i # idents)) =
     fst (revokeLicense sc i) # fst (revokeAll (snd (revokeLicense sc i)) idents)"
  by (simp add: case_prod_beta)

lemma revokeAll_append:
  "snd (revokeAll sc (xs @ ys)) = snd (revokeAll (snd (revokeAll sc xs)) ys)"
  by (induction xs arbitrary: sc) (simp_all add: snd_revokeAll_Cons del: revokeAll.simps(2))

lemma members_revokeAll_mono:
  "members sc \<subseteq> members (snd (revokeAll sc idents))"
proof (induction idents arbitrary: sc)
  case Nil
  show ?case by simp
next
  case (Cons i idents)
  have "members sc \<subseteq> members (snd (revokeLicense sc i))"
    by (simp add: members_revokeLicense)
  also have "\<dots> \<subseteq> members (snd (revokeAll (snd (revokeLicense sc i)) idents))"
    by (rule Cons.IH)
  finally show ?case by (simp only: snd_revokeAll_Cons)
qed

lemma revokeAll_all_members:
  assumes "readable sc" "writable sc" "objects sc revocations = Some d"
    and "\<forall>i \<in> set idents. i \<noteq> [] \<and> CHR 0x0A \<notin> set i"
  shows "fst (revokeAll sc idents) = replicate (length idents) None
       \<and> members (snd (revokeAll sc idents)) = entries d \<union> set idents
       \<and> readable (snd (revokeAll sc idents)) \<and> writable (snd (revokeAll sc idents))"
  using assms
proof (induction idents arbitrary: sc d)
  case Nil
  then show ?case by (simp add: members_def)
next
  case (Cons i idents)
  let ?sc1 = "snd (revokeLicense sc i)"
  have r: "fst (revokeLicense sc i) = None"
    and o: "objects ?sc1 revocations = Some (d @ newline @ i)"
    and f: "readable ?sc1" "writable ?sc1"
    using Cons.prems(1-3) by (simp_all add: revokeLicense_present)
  have e: "entries (d @ newline @ i) = entries d \<union> {i}"
    using Cons.prems(4) by (simp add: entries_append entries_single)
  have "\<forall>j \<in> set idents. j \<noteq> [] \<and> CHR 0x0A \<notin> set j"
    using Cons.prems(4) by simp
  from Cons.IH [OF f o this] r e show ?case
    by (simp add: fst_revokeAll_Cons snd_revokeAll_Cons del: revokeAll.simps(2))
qed


section \<open>The claims\<close>

subsection \<open>Writes and the version token\<close>

text \<open>
  C1, as amended. The write of \<open>revokeLicense\<close> is unconditional: \<open>ReadFile\<close> hands
  the call no version token and \<open>WriteFile\<close> is given none. Whatever the store has
  become since the call read content \<open>d\<close> (any later state \<open>sc\<close> that accepts writes,
  whatever its version token and content), the write succeeds and installs \<open>d\<close>, a
  newline and the identifier.
\<close>

theorem write_is_unconditional:
  "readable sc0 \<Longrightarrow> objects sc0 revocations = Some d \<Longrightarrow> writable sc \<Longrightarrow>
   step sc0 (AtRead ident) = (sc0, AtWrite (d @ newline @ ident))
   \<and> snd (step sc (AtWrite (d @ newline @ ident))) = Returned None
   \<and> objects (fst (step sc (AtWrite (d @ newline @ ident)))) revocations
        = Some (d @ newline @ ident)"
  by (simp add: ReadFile_def WriteFile_def)

text \<open>
  An instance: the call for \<open>a\<close> reads the empty record, a whole revocation of \<open>b\<close>
  changes the version token, and the write for \<open>a\<close> still goes through.
\<close>

theorem write_is_unconditional_witness:
  "readable emptyRecord \<and> objects emptyRecord revocations = Some []
   \<and> writable (snd (revokeLicense emptyRecord ''b''))
   \<and> generation (snd (revokeLicense emptyRecord ''b'')) revocations
        \<noteq> generation emptyRecord revocations
   \<and> step emptyRecord (AtRead ''a'') = (emptyRecord, AtWrite (newline @ ''a''))
   \<and> snd (step (snd (revokeLicense emptyRecord ''b'')) (AtWrite (newline @ ''a''))) = Returned None
   \<and> objects (fst (step (snd (revokeLicense emptyRecord ''b'')) (AtWrite (newline @ ''a''))))
        revocations = Some (newline @ ''a'')"
  using write_is_unconditional [of emptyRecord "[]" "snd (revokeLicense emptyRecord ''b'')" "''a''"]
  by (simp add: emptyRecord_def revokeLicense_cases)

text \<open>
  The write is not conditional on the version token read at the start. Call 0 reads at
  version 0 and holds \<open>"\na"\<close>; call 1 then reads and writes, which moves the version to 1
  and the object to \<open>"\nb"\<close>; the write of call 0 is accepted all the same and replaces
  the object by \<open>"\na"\<close>.
\<close>

theorem write_ignores_version_counterexample:
  "generation emptyRecord revocations = 0
   \<and> snd (run [0] (emptyRecord, [AtRead ''a'', AtRead ''b''])) ! 0 = AtWrite (newline @ ''a'')
   \<and> generation (fst (run [0, 1, 1] (emptyRecord, [AtRead ''a'', AtRead ''b'']))) revocations = 1
   \<and> objects (fst (run [0, 1, 1] (emptyRecord, [AtRead ''a'', AtRead ''b'']))) revocations
        = Some (newline @ ''b'')
   \<and> snd (run [0, 1, 1, 0] (emptyRecord, [AtRead ''a'', AtRead ''b''])) ! 0 = Returned None
   \<and> objects (fst (run [0, 1, 1, 0] (emptyRecord, [AtRead ''a'', AtRead ''b'']))) revocations
        = Some (newline @ ''a'')"
  by (simp add: emptyRecord_def ReadFile_def WriteFile_def)

subsection \<open>Racing revocations\<close>

text \<open>
  C2, as amended. Revocations made one after the other, each call returning before the
  next one reads, of identifiers that are non-empty and hold no newline byte, on a store
  that accepts reads and writes and whose record exists with empty content: every call
  succeeds and the final membership set is exactly the set of the identifiers.
\<close>

theorem sequential_revokes_keep_all:
  assumes "\<forall>i \<in> set idents. i \<noteq> [] \<and> CHR 0x0A \<notin> set i"
    and "readable sc" and "writable sc" and "objects sc revocations = Some []"
  shows "fst (revokeAll sc idents) = replicate (length idents) None
       \<and> members (snd (revokeAll sc idents)) = set idents"
  using revokeAll_all_members [OF assms(2,3,4,1)] by (simp add: entries_def)

theorem sequential_revokes_keep_all_witness:
  "[] \<notin> set [''a1'', ''b2'', ''c3'']
   \<and> CHR 0x0A \<notin> set (concat [''a1'', ''b2'', ''c3''])
   \<and> readable emptyRecord \<and> writable emptyRecord
   \<and> objects emptyRecord revocations = Some []
   \<and> fst (revokeAll emptyRecord [''a1'', ''b2'', ''c3'']) = [None, None, None]
   \<and> members (snd (revokeAll emptyRecord [''a1'', ''b2'', ''c3''])) = {''a1'', ''b2'', ''c3''}"
  using sequential_revokes_keep_all [of "[''a1'', ''b2'', ''c3'']" emptyRecord]
  by (simp add: emptyRecord_def)

text \<open>
  Three calls with distinct identifiers on the empty record, all reading before any of
  them writes: all three return success and the record holds the last writer's
  identifier only.
\<close>

theorem concurrent_revokes_lose_update_counterexample:
  "distinct [''a1'', ''b2'', ''c3'']
   \<and> members emptyRecord = {}
   \<and> snd (run [0, 1, 2, 0, 1, 2] (emptyRecord, [AtRead ''a1'', AtRead ''b2'', AtRead ''c3'']))
        = [Returned None, Returned None, Returned None]
   \<and> members (fst (run [0, 1, 2, 0, 1, 2]
                      (emptyRecord, [AtRead ''a1'', AtRead ''b2'', AtRead ''c3''])))
        = {''c3''}"
  by (simp add: emptyRecord_def ReadFile_def WriteFile_def members_def entries_def newline_def)

subsection \<open>Revoking twice\<close>

text \<open>
  C3, as amended. Revoking an identifier that is already a member, on a store that
  accepts reads and writes, returns success and leaves the membership set as it was; the
  call does write: the stored content gains one more line with the identifier and the
  version token changes.
\<close>

theorem revoke_member_again:
  assumes "readable sc" and "writable sc" and "ident \<in> members sc"
  shows "fst (revokeLicense sc ident) = None
       \<and> members (snd (revokeLicense sc ident)) = members sc
       \<and> (\<exists>d. objects sc revocations = Some d
              \<and> objects (snd (revokeLicense sc ident)) revocations = Some (d @ newline @ ident))
       \<and> generation (snd (revokeLicense sc ident)) revocations
           = Suc (generation sc revocations)"
proof -
  from assms(3) obtain d where d: "objects sc revocations = Some d" and m: "ident \<in> entries d"
    by (auto simp: members_def split: option.splits)
  have e: "entries ident = {ident}" using m by (rule entries_member)
  have r: "revokeLicense sc ident =
     (None, sc\<lparr>objects := (objects sc)(revocations \<mapsto> d @ newline @ ident),
               generation := (generation sc)(revocations := Suc (generation sc revocations))\<rparr>)"
    using assms(1,2) d by (rule revokeLicense_present)
  show ?thesis using d m e by (auto simp: r members_def entries_append)
qed

theorem revoke_member_again_witness:
  "readable (snd (revokeLicense emptyRecord ''abc''))
   \<and> writable (snd (revokeLicense emptyRecord ''abc''))
   \<and> ''abc'' \<in> members (snd (revokeLicense emptyRecord ''abc''))
   \<and> fst (revokeLicense (snd (revokeLicense emptyRecord ''abc'')) ''abc'') = None
   \<and> members (snd (revokeLicense (snd (revokeLicense emptyRecord ''abc'')) ''abc''))
        = members (snd (revokeLicense emptyRecord ''abc''))"
  using revoke_member_again [of "snd (revokeLicense emptyRecord ''abc'')" "''abc''"]
  by (simp add: revokeLicense_cases emptyRecord_def members_def entries_def newline_def)

text \<open>
  The second of two revocations of \<open>abc\<close> writes: the content goes from \<open>"\nabc"\<close> to
  \<open>"\nabc\nabc"\<close>, a duplicate entry, and the version token moves.
\<close>

theorem second_revoke_writes_counterexample:
  "''abc'' \<in> members (snd (revokeLicense emptyRecord ''abc''))
   \<and> objects (snd (revokeLicense emptyRecord ''abc'')) revocations = Some (newline @ ''abc'')
   \<and> fst (revokeLicense (snd (revokeLicense emptyRecord ''abc'')) ''abc'') = None
   \<and> objects (snd (revokeLicense (snd (revokeLicense emptyRecord ''abc'')) ''abc'')) revocations
        = Some (newline @ ''abc'' @ newline @ ''abc'')
   \<and> generation (snd (revokeLicense (snd (revokeLicense emptyRecord ''abc'')) ''abc'')) revocations
        = Suc (generation (snd (revokeLicense emptyRecord ''abc'')) revocations)"
  by (simp add: revokeLicense_cases emptyRecord_def members_def entries_def newline_def)

subsection \<open>Failure and retry\<close>

text \<open>
  C4, as amended. A call makes a single attempt: one read and then at most one write,
  so after its own two steps it has returned, whatever the store was at either step.
  There is no retry and no error of its own: the error it returns is the one the read or
  the write gave. A call that fails leaves the store exactly as it was before the call.
\<close>

theorem single_attempt:
  "(\<exists>r. snd (step sc2 (snd (step sc1 (AtRead ident)))) = Returned r)
   \<and> fst (revokeLicense sc ident) =
        (case ReadFile sc revocations of
           Inl err \<Rightarrow> Some err
         | Inr d \<Rightarrow> fst (WriteFile sc revocations (d @ newline @ ident)))
   \<and> (fst (revokeLicense sc ident) \<noteq> None \<longrightarrow> snd (revokeLicense sc ident) = sc)"
  by (simp add: revokeLicense_def ReadFile_def WriteFile_def split: option.splits)

theorem single_attempt_witness:
  "fst (revokeLicense readOnly ''abc'') = Some Unavailable
   \<and> fst (revokeLicense readOnly ''abc'') \<noteq> None
   \<and> snd (revokeLicense readOnly ''abc'') = readOnly
   \<and> (\<exists>r. snd (step readOnly (snd (step readOnly (AtRead ''abc'')))) = Returned r)"
  using single_attempt [of readOnly readOnly "''abc''" readOnly]
  by (simp add: revokeLicense_cases ReadFile_def WriteFile_def readOnly_def)

text \<open>
  Both calls read at version 0. The write of call 0 moves the version to 1 and the object
  to \<open>"\na"\<close>. Call 1, whose version token has changed under it, does not read again and
  does not fail: its second step is its write, it returns success, and the object is
  \<open>"\nb"\<close>, which is neither the content before the call nor what call 0 committed.
\<close>

theorem no_retry_counterexample:
  "snd (run [0, 1] (emptyRecord, [AtRead ''a'', AtRead ''b''])) ! 1 = AtWrite (newline @ ''b'')
   \<and> generation (fst (run [0, 1] (emptyRecord, [AtRead ''a'', AtRead ''b'']))) revocations = 0
   \<and> generation (fst (run [0, 1, 0] (emptyRecord, [AtRead ''a'', AtRead ''b'']))) revocations = 1
   \<and> objects (fst (run [0, 1, 0] (emptyRecord, [AtRead ''a'', AtRead ''b'']))) revocations
        = Some (newline @ ''a'')
   \<and> snd (run [0, 1, 0, 1] (emptyRecord, [AtRead ''a'', AtRead ''b''])) ! 1 = Returned None
   \<and> objects (fst (run [0, 1, 0, 1] (emptyRecord, [AtRead ''a'', AtRead ''b'']))) revocations
        = Some (newline @ ''b'')
   \<and> Some (newline @ ''b'') \<noteq> objects emptyRecord revocations
   \<and> Some (newline @ ''b'') \<noteq> Some (newline @ ''a'')"
  by (simp add: emptyRecord_def ReadFile_def WriteFile_def)

subsection \<open>The absent record\<close>

text \<open>
  C5, as amended. When the revocation object does not exist, the call fails and creates
  nothing: the read's error (\<open>NotFound\<close> on a store that answers reads) is returned,
  the store is unchanged, and the handler answers 500. The object has to exist before the
  first revocation.
\<close>

theorem revoke_absent_record_fails:
  "objects sc revocations = None \<Longrightarrow>
   fst (revokeLicense sc ident) \<noteq> None \<and> snd (revokeLicense sc ident) = sc
   \<and> (readable sc \<longrightarrow> fst (revokeLicense sc ident) = Some NotFound)
   \<and> fst (ServeHTTP (fst (RevokeLicense [''id'' \<mapsto> ident] sc))) = 500"
  by (simp add: RevokeLicense_def revokeLicense_cases StatusInternalServerError_def)

theorem revoke_absent_record_fails_witness:
  "objects noRecord revocations = None \<and> readable noRecord
   \<and> revokeLicense noRecord ''abc'' = (Some NotFound, noRecord)
   \<and> fst (ServeHTTP (fst (RevokeLicense [''id'' \<mapsto> ''abc''] noRecord))) = 500"
  using revoke_absent_record_fails [of noRecord "''abc''"]
  by (simp add: noRecord_def prod_eq_iff)

text \<open>On a store without the object, revoking \<open>abc\<close> fails and the object is still absent.\<close>

theorem revoke_absent_record_counterexample:
  "objects noRecord revocations = None
   \<and> fst (revokeLicense noRecord ''abc'') = Some NotFound
   \<and> objects (snd (revokeLicense noRecord ''abc'')) revocations = None"
  by (simp add: revokeLicense_cases noRecord_def)

subsection \<open>Validation of the inputs\<close>

text \<open>
  C6. The doc comment of \<open>NewLicense\<close> gives status 400 for the body
  \<open>{"product": ""}\<close>, and the claim asks for a client error on the empty product. The
  handler has no test of the product: for a body that decodes to the empty product it
  never answers 400, and with a key and an encoder that succeed it answers 200 with the
  license built from the empty product.
\<close>

theorem NewLicense_empty_product_not_rejected:
  "decodeBody env body = Inr [] \<Longrightarrow>
   fst (ServeHTTP (snd (NewLicense env body))) \<noteq> 400
   \<and> (\<forall>key licStr. getPrivateKey env ''plugin'' = Inr key
         \<and> licenseEncode env (licenseNew env []) key = Inr licStr
       \<longrightarrow> ServeHTTP (snd (NewLicense env body)) = (200, licStr))"
  by (auto simp: NewLicense_def StatusInternalServerError_def split: sum.splits)

theorem NewLicense_empty_product_not_rejected_witness:
  "decodeBody (testIssuer True) ''{\"product\": \"\"}'' = Inr []
   \<and> getPrivateKey (testIssuer True) ''plugin'' = Inr 7
   \<and> ServeHTTP (snd (NewLicense (testIssuer True) ''{\"product\": \"\"}'')) = (200, ''license:'')"
  using NewLicense_empty_product_not_rejected [of "testIssuer True" "''{\"product\": \"\"}''"]
  by (simp add: testIssuer_def)

text \<open>
  C7, as amended. \<open>RevokeLicense\<close> validates nothing: it answers 200 or 500 and never a
  client error, and for every identifier, the empty one and a missing route variable
  included, a store that accepts the read and the write gets the newline and the
  identifier appended and the answer is 200 \<open>SUCCESS\<close>.
\<close>

theorem RevokeLicense_no_validation:
  "fst (ServeHTTP (fst (RevokeLicense vars sc))) \<in> {200, 500}
   \<and> (readable sc \<and> writable sc \<and> objects sc revocations = Some d \<longrightarrow>
        ServeHTTP (fst (RevokeLicense vars sc)) = (200, ''SUCCESS'')
        \<and> objects (snd (RevokeLicense vars sc)) revocations
            = Some (d @ newline @ (case vars ''id'' of None \<Rightarrow> [] | Some v \<Rightarrow> v)))"
  by (simp add: RevokeLicense_def revokeLicense_cases StatusInternalServerError_def
           split: option.splits)

theorem RevokeLicense_no_validation_witness:
  "readable emptyRecord \<and> writable emptyRecord \<and> objects emptyRecord revocations = Some []
   \<and> ServeHTTP (fst (RevokeLicense [''id'' \<mapsto> ''a/b''] emptyRecord)) = (200, ''SUCCESS'')
   \<and> objects (snd (RevokeLicense [''id'' \<mapsto> ''a/b''] emptyRecord)) revocations
        = Some (newline @ ''a/b'')"
  using RevokeLicense_no_validation [of "[''id'' \<mapsto> ''a/b'']" emptyRecord "[]"]
  by (simp add: emptyRecord_def)

text \<open>
  The empty identifier is accepted: the answer is 200 and the record, empty before, holds
  a newline afterwards. The same happens when the route variable is missing.
\<close>

theorem empty_id_accepted_counterexample:
  "ServeHTTP (fst (RevokeLicense [''id'' \<mapsto> []] emptyRecord)) = (200, ''SUCCESS'')
   \<and> objects emptyRecord revocations = Some []
   \<and> objects (snd (RevokeLicense [''id'' \<mapsto> []] emptyRecord)) revocations = Some newline
   \<and> ServeHTTP (fst (RevokeLicense Map.empty emptyRecord)) = (200, ''SUCCESS'')"
  by (simp add: RevokeLicense_def revokeLicense_cases emptyRecord_def)

subsection \<open>Monotonicity\<close>

text \<open>
  C8, as amended. For every sequence of revocations made one after the other, each call
  returning before the next one reads, and whatever each of them returns, an identifier
  that is a member after some of them is still a member after any further ones. A call
  that overlaps another one is not covered: its write can drop what the other committed.
\<close>

theorem revocation_monotonic:
  "x \<in> members (snd (revokeAll sc idents)) \<Longrightarrow>
   x \<in> members (snd (revokeAll sc (idents @ later)))"
  using members_revokeAll_mono [of "snd (revokeAll sc idents)" later]
  by (auto simp: revokeAll_append)

theorem revocation_monotonic_witness:
  "''a'' \<in> members (snd (revokeAll emptyRecord [''a'']))
   \<and> ''a'' \<in> members (snd (revokeAll emptyRecord ([''a''] @ [''b'', ''a''])))"
  using revocation_monotonic [of "''a''" emptyRecord "[''a'']" "[''b'', ''a'']"]
  by (simp add: revokeLicense_cases emptyRecord_def members_def entries_def newline_def)

text \<open>
  A call whose read came before another call's write removes that call's identifier.
  Call 0 reads the empty record; call 1 reads and writes, after which \<open>y2\<close> is a
  member; call 0 then writes what it computed from its own read and returns success, and
  \<open>y2\<close> is a member no more.
\<close>

theorem overlapping_revoke_removes_member_counterexample:
  "''y2'' \<in> members (fst (run [0, 1, 1] (emptyRecord, [AtRead ''x1'', AtRead ''y2''])))
   \<and> snd (run [0, 1, 1] (emptyRecord, [AtRead ''x1'', AtRead ''y2'']))
        = [AtWrite (newline @ ''x1''), Returned None]
   \<and> snd (run [0, 1, 1, 0] (emptyRecord, [AtRead ''x1'', AtRead ''y2'']))
        = [Returned None, Returned None]
   \<and> ''y2'' \<notin> members (fst (run [0, 1, 1, 0] (emptyRecord, [AtRead ''x1'', AtRead ''y2''])))
   \<and> members (fst (run [0, 1, 1, 0] (emptyRecord, [AtRead ''x1'', AtRead ''y2'']))) = {''x1''}"
  by (simp add: emptyRecord_def ReadFile_def WriteFile_def members_def entries_def newline_def)

subsection \<open>What a successful call writes\<close>

text \<open>
  C9, as amended. A successful call that read content \<open>d\<close> leaves \<open>d\<close>, a newline and
  the identifier in the object and touches no other object; \<open>d\<close> is a prefix of the new
  content, whether or not the identifier occurs in \<open>d\<close>. The lines of the new content
  are the lines of \<open>d\<close> followed by the lines of the identifier: one line more than
  before when the identifier holds no newline byte, and one more for each newline byte
  it holds.
\<close>

theorem revokeLicense_writes_appended:
  "fst (revokeLicense sc ident) = None \<Longrightarrow>
   \<exists>d. objects sc revocations = Some d
     \<and> objects (snd (revokeLicense sc ident)) revocations = Some (d @ newline @ ident)
     \<and> prefix d (d @ newline @ ident)
     \<and> splitLines (d @ newline @ ident) = splitLines d @ splitLines ident
     \<and> length (splitLines (d @ newline @ ident))
         = length (splitLines d) + 1 + count_list ident (CHR 0x0A)
     \<and> (\<forall>path. path \<noteq> revocations \<longrightarrow>
           objects (snd (revokeLicense sc ident)) path = objects sc path)"
  by (auto simp: revokeLicense_cases splitLines_append length_splitLines
           split: if_splits option.splits)

theorem revokeLicense_writes_appended_witness:
  "fst (revokeLicense emptyRecord ''abc'') = None
   \<and> objects emptyRecord revocations = Some []
   \<and> objects (snd (revokeLicense emptyRecord ''abc'')) revocations = Some (newline @ ''abc'')
   \<and> length (splitLines (newline @ ''abc'')) = length (splitLines []) + 1"
  using revokeLicense_writes_appended [of emptyRecord "''abc''"]
  by (simp add: revokeLicense_cases emptyRecord_def newline_def)

text \<open>
  An identifier with a newline byte in it: the call succeeds and the content grows by
  two lines.
\<close>

theorem revokeLicense_two_lines_counterexample:
  "fst (revokeLicense emptyRecord (''a'' @ newline @ ''b'')) = None
   \<and> objects emptyRecord revocations = Some []
   \<and> objects (snd (revokeLicense emptyRecord (''a'' @ newline @ ''b''))) revocations
        = Some (newline @ ''a'' @ newline @ ''b'')
   \<and> length (splitLines (newline @ ''a'' @ newline @ ''b'')) = length (splitLines []) + 2"
  by (simp add: revokeLicense_cases emptyRecord_def newline_def)

subsection \<open>The order of the steps of issuing\<close>

text \<open>
  C10. A body that fails to decode is answered with 400 and no collaborator has been
  called. For a body that decodes, the first call is the retrieval of the key named
  \<open>plugin\<close>, and the license is built only after it; when the retrieval fails the
  answer is 500 and nothing else has been called, whatever the product, the empty one
  included.
\<close>

theorem NewLicense_order:
  "(decodeBody env body = Inl e \<longrightarrow>
      NewLicense env body =
        ([], Inl \<lparr>Error = e, Message = ''Could not decode json request'', Code = 400\<rparr>))
   \<and> (decodeBody env body = Inr product \<longrightarrow>
        fst (NewLicense env body) \<in>
          {[GetPrivateKey ''plugin''],
           [GetPrivateKey ''plugin'', LicenseNew product, LicenseEncode]}
        \<and> (getPrivateKey env ''plugin'' = Inl e \<longrightarrow>
             NewLicense env body =
               ([GetPrivateKey ''plugin''],
                Inl \<lparr>Error = e, Message = ''Could not load private key for signing'',
                      Code = 500\<rparr>)))"
  by (auto simp: NewLicense_def StatusBadRequest_def StatusInternalServerError_def
                 Let_def split: sum.splits)

theorem NewLicense_order_witness:
  "decodeBody (testIssuer False) ''{'' = Inl (Err ''unexpected end of JSON input'')
   \<and> ServeHTTP (snd (NewLicense (testIssuer False) ''{'')) = (400, ''Could not decode json request'' @ [CHR 0x0A])
   \<and> fst (NewLicense (testIssuer False) ''{'') = []
   \<and> decodeBody (testIssuer False) ''{\"product\": \"\"}'' = Inr []
   \<and> getPrivateKey (testIssuer False) ''plugin'' = Inl (Err ''no such key'')
   \<and> NewLicense (testIssuer False) ''{\"product\": \"\"}'' =
        ([GetPrivateKey ''plugin''],
         Inl \<lparr>Error = Err ''no such key'', Message = ''Could not load private key for signing'',
               Code = 500\<rparr>)"
  using NewLicense_order [of "testIssuer False" "''{''" "Err ''unexpected end of JSON input''" "[]"]
    NewLicense_order [of "testIssuer False" "''{\"product\": \"\"}''" "Err ''no such key''" "[]"]
  by (simp add: testIssuer_def)

end
